theory Spec2Isabelle
  imports Main "HOL-Library.Product_Lexorder"
begin

section \<open>JavaScript values and strings used by main.ts\<close>

text \<open>
  Strings are character lists.  A value that may be \<^verbatim>\<open>undefined\<close> (an unset
  environment variable, the first element of an empty array) is a \<open>string option\<close>, with
  \<open>None\<close> for \<^verbatim>\<open>undefined\<close>.  String concatenation and template literals print
  \<^verbatim>\<open>undefined\<close> as the nine letters of its name; \<open>js_str\<close> is that conversion.  A value is
  truthy when it is defined and not the empty string.
\<close>

definition js_str :: "string option \<Rightarrow> string" where
  "js_str v = (case v of None \<Rightarrow> ''undefined'' | Some s \<Rightarrow> s)"

definition truthy :: "string option \<Rightarrow> bool" where
  "truthy v = (case v of None \<Rightarrow> False | Some s \<Rightarrow> s \<noteq> [])"

text \<open>\<^verbatim>\<open>xs[i]\<close>: reading past the end of an array gives \<^verbatim>\<open>undefined\<close>.\<close>

definition js_index :: "'a list \<Rightarrow> nat \<Rightarrow> 'a option" where
  "js_index xs i = (if i < length xs then Some (xs ! i) else None)"

text \<open>
  \<^verbatim>\<open>s.split(c)\<close> for a separator of one character: the pieces between the separators,
  empty pieces kept, so the result is never empty and \<^verbatim>\<open>"".split(c)\<close> is \<^verbatim>\<open>[""]\<close>.
\<close>

fun js_split :: "char \<Rightarrow> string \<Rightarrow> string list" where
  "js_split c [] = [[]]"
| "js_split c (x # xs) =
     (if x = c then [] # js_split c xs
      else (case js_split c xs of
              [] \<Rightarrow> [[x]]
            | w # ws \<Rightarrow> (x # w) # ws))"

text \<open>
  \<^verbatim>\<open>s.trim()\<close> removes white space and line terminators from both ends.  Of the
  characters a \<open>char\<close> can hold these are tab, line feed, vertical tab, form feed,
  carriage return, space and the no-break space.
\<close>

definition is_space :: "char \<Rightarrow> bool" where
  "is_space c = (c \<in> {CHR 0x09, CHR 0x0A, CHR 0x0B, CHR 0x0C, CHR 0x0D, CHR 0x20, CHR 0xA0})"

definition trim :: "string \<Rightarrow> string" where
  "trim s = rev (dropWhile is_space (rev (dropWhile is_space s)))"

definition dquote :: string where
  "dquote = [CHR 0x22]"

definition squote :: string where
  "squote = [CHR 0x27]"

section \<open>Errors and version comparison\<close>

text \<open>A thrown JavaScript \<^verbatim>\<open>Error\<close>, with its message.\<close>

datatype error = Error string

fun message :: "error \<Rightarrow> string" where
  "message (Error m) = m"

definition bindE :: "error + 'a \<Rightarrow> ('a \<Rightarrow> error + 'b) \<Rightarrow> error + 'b" where
  "bindE r f = (case r of Inl e \<Rightarrow> Inl e | Inr x \<Rightarrow> f x)"

text \<open>Decimal numerals: a non-empty run of digits, read in base ten.\<close>

definition is_digit :: "char \<Rightarrow> bool" where
  "is_digit c = (c \<in> set ''0123456789'')"

definition digit_val :: "char \<Rightarrow> nat" where
  "digit_val c = of_char c - 48"

definition parse_nat :: "string \<Rightarrow> nat option" where
  "parse_nat s =
     (if s \<noteq> [] \<and> list_all is_digit s
      then Some (foldl (\<lambda>n c. 10 * n + digit_val c) 0 s) else None)"

text \<open>
  Modelled from the spec: the package \<^verbatim>\<open>compare-versions\<close> that main.ts imports is not
  part of the sources, so the reading of a version string is taken from the spec, which
  describes versions as major.minor.patch with numeric components.  A version is one to
  three numerals separated by dots, a missing component counting as zero.
\<close>

definition version_triple :: "string \<Rightarrow> (nat \<times> nat \<times> nat) option" where
  "version_triple s =
     (case map parse_nat (js_split CHR ''.'' s) of
        [Some a] \<Rightarrow> Some (a, 0, 0)
      | [Some a, Some b] \<Rightarrow> Some (a, b, 0)
      | [Some a, Some b, Some c] \<Rightarrow> Some (a, b, c)
      | _ \<Rightarrow> None)"

text \<open>
  Modelled from the spec: \<^verbatim>\<open>compareVersions.compare(v1, v2, operator)\<close> of the same
  package.  The spec describes the comparison as semantic, numeric per component and not
  lexicographic: the two versions are compared component by component as numbers, in the
  lexicographic order of triples.  A string that is no version, or an operator that is no
  comparison, is refused with an error, as a throwing call would be.
\<close>

definition compareVersions_compare :: "string \<Rightarrow> string \<Rightarrow> string \<Rightarrow> error + bool" where
  "compareVersions_compare v1 v2 operator =
     (case (version_triple v1, version_triple v2) of
        (Some a, Some b) \<Rightarrow>
          (if operator = ''>='' then Inr (b \<le> a)
           else if operator = ''>'' then Inr (b < a)
           else if operator = ''='' then Inr (a = b)
           else if operator = ''<='' then Inr (a \<le> b)
           else if operator = ''<'' then Inr (a < b)
           else Inl (Error ''Invalid operator''))
      | _ \<Rightarrow> Inl (Error ''Invalid argument not valid semver''))"

section \<open>Pure fragments of \<^verbatim>\<open>run\<close>\<close>

text \<open>Lines 9-15: the host that stands for the platform the action runs on.\<close>

definition getDefaultHost :: "string \<Rightarrow> string" where
  "getDefaultHost platform =
     (if platform = ''win32'' then ''windows''
      else if platform = ''darwin'' then ''mac''
      else ''linux'')"

text \<open>
  Lines 98-113: the architecture after the automatic choice.  The argument \<open>arch\<close> is
  the \<^verbatim>\<open>arch\<close> input; the empty string is the falsy value that asks for the choice, and
  stays the result where no rule applies.
\<close>

definition default_arch :: "string \<Rightarrow> string \<Rightarrow> string \<Rightarrow> error + string" where
  "default_arch host version arch =
     (if arch = [] then
        (if host = ''windows'' then
           bindE (compareVersions_compare version ''5.15.0'' ''>='') (\<lambda>ge_5_15.
             if ge_5_15 then Inr ''win64_msvc2019_64''
             else bindE (compareVersions_compare version ''5.6.0'' ''<'') (\<lambda>lt_5_6.
               if lt_5_6 then Inr ''win64_msvc2013_64''
               else bindE (compareVersions_compare version ''5.9.0'' ''<'') (\<lambda>lt_5_9.
                 if lt_5_9 then Inr ''win64_msvc2015_64''
                 else Inr ''win64_msvc2017_64'')))
         else if host = ''android'' then Inr ''android_armv7''
         else Inr arch)
      else Inr arch)"

text \<open>Lines 128-134: the output directory flag, then the words of the \<^verbatim>\<open>extra\<close> input.\<close>

definition extraArgs :: "string \<Rightarrow> string \<Rightarrow> string list" where
  "extraArgs dir extra =
     (let extraArgs = [''-O'', dir]
      in if extra \<noteq> [] then extraArgs @ js_split CHR '' '' extra else extraArgs)"

text \<open>
  Lines 116-136: the argument vector of \<^verbatim>\<open>aqt install-qt\<close>.  Each \<^verbatim>\<open>push\<close> appends to
  the vector built so far.
\<close>

definition args ::
  "string \<Rightarrow> string \<Rightarrow> string \<Rightarrow> string \<Rightarrow> string \<Rightarrow> string \<Rightarrow> string \<Rightarrow> string list" where
  "args host target version arch modules dir extra =
     (let args0 = [host, target, version];
          args1 = (if arch \<noteq> [] \<and> ((host = ''windows'' \<or> target = ''android'') \<or> arch = ''wasm_32'')
                   then args0 @ [arch] else args0);
          args2 = (if modules \<noteq> [] then (args1 @ [''-m'']) @ js_split CHR '' '' modules
                   else args1)
      in args2 @ extraArgs dir extra)"

text \<open>Line 156: the directory name of a version, with its one exception.\<close>

definition version_dir :: "string \<Rightarrow> string" where
  "version_dir version = (if version = ''5.9.0'' then ''5.9'' else version)"

text \<open>
  Lines 144-146: one token of the \<^verbatim>\<open>tools\<close> input is cut at its commas; the tool name is
  element 0, the variant the last element when there are at least two and the empty string
  otherwise.
\<close>

definition toolName :: "string \<Rightarrow> string option" where
  "toolName element = js_index (js_split CHR '','' element) 0"

definition variantName :: "string \<Rightarrow> string option" where
  "variantName element =
     (let elements = js_split CHR '','' element
      in if length elements > 1 then js_index elements (length elements - 1) else Some [])"

section \<open>The runner: inputs, external calls and effects\<close>

text \<open>
  What \<^verbatim>\<open>run\<close> reads from outside: the action's inputs (\<^verbatim>\<open>core.getInput\<close>, the empty
  string for an input that is not given), \<^verbatim>\<open>process.platform\<close>, \<^verbatim>\<open>process.env\<close>, the
  result of \<^verbatim>\<open>setupPython.findPythonVersion('>=3.6', 'x64')\<close>, the outcome of every awaited
  \<^verbatim>\<open>exec.exec\<close> call and the matches of \<^verbatim>\<open>glob.sync\<close>.  The outcome of an external command
  may depend on everything that ran before it, so it is asked for by the number of effects
  the run has produced so far, together with the command and its arguments: two calls of
  the same command need not agree.
\<close>

datatype exec_outcome =
    Rejected string
  | Exited int string

record world =
  inputs :: "string \<Rightarrow> string"
  platform :: string
  env :: "string \<Rightarrow> string option"
  findPythonVersion :: "error + string \<times> string"
  exec_outcome_at :: "nat \<Rightarrow> string \<Rightarrow> string list \<Rightarrow> exec_outcome"
  glob_sync :: "string \<Rightarrow> string list"

text \<open>
  What \<^verbatim>\<open>run\<close> does to the outside, in the order it does it.  \<open>Exec\<close> is an awaited
  \<^verbatim>\<open>exec.exec\<close>; \<open>ExecDetached\<close> is one whose promise is dropped (the tool installations
  of lines 143-148, started inside \<^verbatim>\<open>forEach\<close> and never awaited by \<^verbatim>\<open>run\<close>), so that its
  outcome reaches no later step.  The value of an exported variable may be \<^verbatim>\<open>undefined\<close>.
\<close>

datatype event =
    Info string
  | Exec string "string list"
  | ExecDetached string "string list"
  | ExportVariable string "string option"
  | AddPath string
  | SetFailed string

type_synonym trace = "event list"

type_synonym 'a act = "trace \<Rightarrow> (error + 'a) \<times> trace"

definition retA :: "'a \<Rightarrow> 'a act" where
  "retA x tr = (Inr x, tr)"

definition throwA :: "error \<Rightarrow> 'a act" where
  "throwA e tr = (Inl e, tr)"

definition liftE :: "error + 'a \<Rightarrow> 'a act" where
  "liftE r tr = (r, tr)"

definition bindA :: "'a act \<Rightarrow> ('a \<Rightarrow> 'b act) \<Rightarrow> 'b act" where
  "bindA m f tr = (case m tr of (Inl e, tr') \<Rightarrow> (Inl e, tr') | (Inr x, tr') \<Rightarrow> f x tr')"

definition seqA :: "'a act \<Rightarrow> 'b act \<Rightarrow> 'b act" where
  "seqA m n = bindA m (\<lambda>_. n)"

definition emit_all :: "event list \<Rightarrow> unit act" where
  "emit_all evs tr = (Inr (), tr @ evs)"

text \<open>
  An awaited \<^verbatim>\<open>exec.exec(command, args)\<close>: the call is recorded; a rejected promise is a
  thrown error, a fulfilled one gives the exit code (and the text sent to the \<^verbatim>\<open>stdout\<close>
  listener, which only \<open>executeCaptureStdout\<close> installs).
\<close>

definition exec_exec :: "world \<Rightarrow> string \<Rightarrow> string list \<Rightarrow> (int \<times> string) act" where
  "exec_exec w command as tr =
     (case exec_outcome_at w (length tr) command as of
        Rejected m \<Rightarrow> (Inl (Error m), tr @ [Exec command as])
      | Exited return_value output \<Rightarrow> (Inr (return_value, output), tr @ [Exec command as]))"

text \<open>Lines 24-34.\<close>

definition executeCaptureStdout :: "world \<Rightarrow> string \<Rightarrow> string list \<Rightarrow> (string \<times> int) act" where
  "executeCaptureStdout w command as =
     bindA (exec_exec w command as) (\<lambda>(return_value, output). retA (trim output, return_value))"

section \<open>\<^verbatim>\<open>run\<close>\<close>

text \<open>Lines 44-46 and 63-70: the constants of a run.\<close>

definition dir :: "world \<Rightarrow> string" where
  "dir w = js_str (if inputs w ''dir'' \<noteq> [] then Some (inputs w ''dir'')
                   else env w ''RUNNER_WORKSPACE'') @ ''/Qt''"

definition tools :: "world \<Rightarrow> string" where
  "tools w = inputs w ''tools''"

definition setEnv :: "world \<Rightarrow> string" where
  "setEnv w = inputs w ''set-env''"

definition pythonName :: "world \<Rightarrow> string" where
  "pythonName w = (if platform w = ''win32'' then ''python3'' else ''python'')"

definition host :: "world \<Rightarrow> string" where
  "host w = (if inputs w ''host'' \<noteq> [] then inputs w ''host'' else getDefaultHost (platform w))"

definition target :: "world \<Rightarrow> string" where
  "target w = (if inputs w ''target'' \<noteq> [] then inputs w ''target'' else ''desktop'')"

definition simpleSpec :: "world \<Rightarrow> string" where
  "simpleSpec w = (if inputs w ''version'' \<noteq> [] then inputs w ''version'' else ''6.2'')"

text \<open>Lines 72-81.\<close>

definition determineVersion :: "world \<Rightarrow> string act" where
  "determineVersion w =
     bindA (executeCaptureStdout w (pythonName w @ '' -m aqt list-qt'')
              [host w, target w, ''--spec'', dquote @ simpleSpec w @ dquote, ''--latest''])
       (\<lambda>(version, return_value).
          if return_value \<noteq> 0
          then throwA (Error (''Failed to resolve Qt version from SimpleSpec ''
                                @ squote @ simpleSpec w @ squote))
          else retA version)"

text \<open>Lines 38-42.\<close>

definition run_setup_python :: "world \<Rightarrow> unit act" where
  "run_setup_python w =
     (if inputs w ''setup-python'' = ''true'' then
        bindA (liftE (findPythonVersion w)) (\<lambda>(impl, version).
          emit_all [Info (''Successfully setup '' @ impl @ '' ('' @ version @ '')'')])
      else retA ())"

text \<open>Lines 50-60.\<close>

definition cmd0 :: string where
  "cmd0 = ''apt-get update''"

definition cmd1 :: string where
  "cmd1 = ''apt-get install build-essential libgl1-mesa-dev libxkbcommon-x11-0 libpulse-dev libxcb-util1 libxcb-glx0 libxcb-icccm4 libxcb-image0 libxcb-keysyms1 libxcb-randr0 libxcb-render-util0 libxcb-render0 libxcb-shape0 libxcb-shm0 libxcb-sync1 libxcb-xfixes0 libxcb-xinerama0 libxcb1 -y''"

definition run_install_deps :: "world \<Rightarrow> unit act" where
  "run_install_deps w =
     (if platform w = ''linux'' then
        (if inputs w ''install-deps'' = ''true'' then
           seqA (exec_exec w (''sudo '' @ cmd0) []) (seqA (exec_exec w (''sudo '' @ cmd1) []) (retA ()))
         else if inputs w ''install-deps'' = ''nosudo'' then
           seqA (exec_exec w cmd0 []) (seqA (exec_exec w cmd1 []) (retA ()))
         else retA ())
      else retA ())"

text \<open>
  Lines 142-149: one detached \<^verbatim>\<open>aqt install-tool\<close> per word of the \<^verbatim>\<open>tools\<close> input.
\<close>

definition tool_command :: "world \<Rightarrow> string \<Rightarrow> string" where
  "tool_command w element =
     pythonName w @ '' -m aqt install-tool '' @ host w @ '' '' @ target w @ '' ''
       @ js_str (toolName element) @ '' '' @ js_str (variantName element)"

definition run_install_tools :: "world \<Rightarrow> unit act" where
  "run_install_tools w =
     (if tools w \<noteq> [] then
        emit_all (map (\<lambda>element. ExecDetached (tool_command w element)
                                    (extraArgs (dir w) (inputs w ''extra'')))
                      (js_split CHR '' '' (tools w)))
      else retA ())"

text \<open>
  Lines 83-149, the branch taken when the \<^verbatim>\<open>cached\<close> input is not \<^verbatim>\<open>true\<close>: first the
  packages the installer needs (lines 84-91), then the installation itself (lines 92-149),
  which starts with the first version lookup.
\<close>

definition run_install_packages :: "world \<Rightarrow> unit act" where
  "run_install_packages w =
     seqA (if platform w = ''darwin'' then seqA (exec_exec w ''brew install p7zip'' []) (retA ())
           else retA ())
    (seqA (exec_exec w (pythonName w @ '' -m pip install setuptools wheel'') [])
    (seqA (exec_exec w (pythonName w @ '' -m pip install '' @ dquote @ ''py7zr''
                          @ inputs w ''py7zrversion'' @ dquote) [])
    (seqA (exec_exec w (pythonName w @ '' -m pip install '' @ dquote @ ''aqtinstall''
                          @ inputs w ''aqtversion'' @ dquote) [])
          (retA ()))))"

definition run_install_qt :: "world \<Rightarrow> unit act" where
  "run_install_qt w =
     bindA (determineVersion w) (\<lambda>version.
     bindA (liftE (default_arch (host w) version (inputs w ''arch''))) (\<lambda>arch.
     seqA (if inputs w ''tools-only'' \<noteq> ''true'' then
             seqA (exec_exec w (pythonName w @ '' -m aqt install-qt'')
                     (args (host w) (target w) version arch (inputs w ''modules'') (dir w)
                        (inputs w ''extra'')))
                  (retA ())
           else retA ())
          (run_install_tools w)))"

definition run_install :: "world \<Rightarrow> unit act" where
  "run_install w = seqA (run_install_packages w) (run_install_qt w)"

text \<open>
  Lines 158-159: the first match of the glob below the version's directory; no match leaves
  \<^verbatim>\<open>undefined\<close>.
\<close>

definition qtPath :: "world \<Rightarrow> string \<Rightarrow> string option" where
  "qtPath w version =
     js_index (glob_sync w ((dir w @ ''/'' @ version_dir version) @ ''/**/*'')) 0"

text \<open>Lines 161-187, statement by statement: the body of \<^verbatim>\<open>if (setEnv == "true")\<close>.\<close>

definition export_tools :: "world \<Rightarrow> event list" where
  "export_tools w =
     (if tools w \<noteq> [] then [ExportVariable ''IQTA_TOOLS'' (Some (dir w @ ''/Tools''))] else [])"

definition export_ld_library_path :: "world \<Rightarrow> string option \<Rightarrow> event list" where
  "export_ld_library_path w qt =
     (if platform w = ''linux'' then
        (if truthy (env w ''LD_LIBRARY_PATH'') then
           [ExportVariable ''LD_LIBRARY_PATH''
              (Some (js_str (env w ''LD_LIBRARY_PATH'') @ '':'' @ js_str qt @ ''/lib''))]
         else [ExportVariable ''LD_LIBRARY_PATH'' (Some (js_str qt @ ''/lib''))])
      else [])"

definition export_pkg_config_path :: "world \<Rightarrow> string option \<Rightarrow> event list" where
  "export_pkg_config_path w qt =
     (if platform w \<noteq> ''win32'' then
        (if truthy (env w ''PKG_CONFIG_PATH'') then
           [ExportVariable ''PKG_CONFIG_PATH''
              (Some (js_str (env w ''PKG_CONFIG_PATH'') @ '':'' @ js_str qt @ ''/lib/pkgconfig''))]
         else [ExportVariable ''PKG_CONFIG_PATH'' (Some (js_str qt @ ''/lib/pkgconfig''))])
      else [])"

definition export_qt_dir :: "string option \<Rightarrow> string \<Rightarrow> error + event list" where
  "export_qt_dir qt version =
     bindE (compareVersions_compare version ''6.0.0'' ''<'') (\<lambda>lt_6.
       if lt_6 then Inr [ExportVariable ''Qt5_Dir'' qt, ExportVariable ''Qt5_DIR'' qt]
       else Inr [ExportVariable ''Qt6_DIR'' qt])"

definition export_paths :: "string option \<Rightarrow> event list" where
  "export_paths qt =
     [ExportVariable ''QT_PLUGIN_PATH'' (Some (js_str qt @ ''/plugins'')),
      ExportVariable ''QML2_IMPORT_PATH'' (Some (js_str qt @ ''/qml'')),
      AddPath (js_str qt @ ''/bin'')]"

definition run_set_env :: "world \<Rightarrow> string option \<Rightarrow> string \<Rightarrow> unit act" where
  "run_set_env w qt version =
     seqA (emit_all (export_tools w))
    (seqA (emit_all (export_ld_library_path w qt))
    (seqA (emit_all (export_pkg_config_path w qt))
    (bindA (liftE (export_qt_dir qt version)) (\<lambda>evs.
     seqA (emit_all evs)
          (emit_all (export_paths qt))))))"

text \<open>Lines 155-188: the second version lookup, the glob and the guarded exports.\<close>

definition run_project :: "world \<Rightarrow> unit act" where
  "run_project w =
     bindA (determineVersion w) (\<lambda>version.
       if setEnv w = ''true'' then run_set_env w (qtPath w version) version else retA ())"

text \<open>Lines 38-150: everything before the second version lookup.\<close>

definition run_prepare :: "world \<Rightarrow> unit act" where
  "run_prepare w =
     seqA (run_setup_python w)
    (seqA (run_install_deps w)
          (if inputs w ''cached'' \<noteq> ''true'' then run_install w else retA ()))"

text \<open>
  Lines 36-192: the body inside \<^verbatim>\<open>try\<close> starts with no effect done; an error thrown
  anywhere in it ends the run with \<^verbatim>\<open>core.setFailed(error.message)\<close>.
\<close>

definition run_body :: "world \<Rightarrow> unit act" where
  "run_body w = seqA (run_prepare w) (run_project w)"

definition run :: "world \<Rightarrow> trace" where
  "run w =
     (case run_body w [] of
        (Inl e, tr) \<Rightarrow> tr @ [SetFailed (message e)]
      | (Inr _, tr) \<Rightarrow> tr)"

text \<open>The environment mutations of a trace: the exported variables and path prepends.\<close>

fun is_mutation :: "event \<Rightarrow> bool" where
  "is_mutation (ExportVariable _ _) = True"
| "is_mutation (AddPath _) = True"
| "is_mutation _ = False"

definition mutations :: "trace \<Rightarrow> trace" where
  "mutations tr = filter is_mutation tr"

fun is_exec :: "event \<Rightarrow> bool" where
  "is_exec (Exec _ _) = True"
| "is_exec (ExecDetached _ _) = True"
| "is_exec _ = False"

fun exports :: "string \<Rightarrow> event \<Rightarrow> bool" where
  "exports name (ExportVariable n _) = (n = name)"
| "exports name _ = False"

section \<open>Auxiliary notions for the proofs\<close>

text \<open>
  An action is quiet for a class of events when it adds no event of that class to any
  trace.
\<close>

definition quiet :: "(event \<Rightarrow> bool) \<Rightarrow> 'a act \<Rightarrow> bool" where
  "quiet P m = (\<forall>tr. filter P (snd (m tr)) = filter P tr)"

text \<open>The three variables that name the installation directory by major version.\<close>

definition is_qt_dir_var :: "event \<Rightarrow> bool" where
  "is_qt_dir_var e = (exports ''Qt5_Dir'' e \<or> exports ''Qt5_DIR'' e \<or> exports ''Qt6_DIR'' e)"

text \<open>The trace of a run up to and including the second version lookup.\<close>

definition run_until_projection :: "world \<Rightarrow> trace" where
  "run_until_projection w =
     (case run_prepare w [] of
        (Inl e, tr) \<Rightarrow> tr
      | (Inr _, tr) \<Rightarrow> snd (determineVersion w tr))"

text \<open>
  The text of a version: three decimal numerals separated by dots.  It serves to state
  properties for every version number, not only for the strings that happen to parse.
\<close>

function decimal :: "nat \<Rightarrow> string" where
  "decimal n = (if n < 10 then [''0123456789'' ! n]
                else decimal (n div 10) @ [''0123456789'' ! (n mod 10)])"
  by pat_completeness auto
termination
  by (relation "measure id") auto

declare decimal.simps [simp del]

definition version_string :: "nat \<Rightarrow> nat \<Rightarrow> nat \<Rightarrow> string" where
  "version_string major minor patch = decimal major @ ''.'' @ decimal minor @ ''.'' @ decimal patch"

section \<open>Example runners\<close>

text \<open>
  A Linux runner with a cached installation: only \<^verbatim>\<open>set-env\<close> and \<^verbatim>\<open>cached\<close> are given,
  every external command exits with code 0 and prints the version 6.2.0 on a line, and the
  glob below the version's directory has two matches.
\<close>

definition example_linux :: world where
  "example_linux =
     \<lparr>inputs = (\<lambda>_. [])(''set-env'' := ''true'', ''cached'' := ''true''),
      platform = ''linux'',
      env = (\<lambda>_. None)(''RUNNER_WORKSPACE'' := Some ''/w''),
      findPythonVersion = Inr (''CPython'', ''3.9.1''),
      exec_outcome_at = (\<lambda>_ _ _. Exited 0 (''6.2.0'' @ [CHR 0x0A])),
      glob_sync = (\<lambda>p. if p = ''/w/Qt/6.2.0/**/*''
                          then [''/w/Qt/6.2.0/gcc_64'', ''/w/Qt/6.2.0/gcc_64/bin''] else [])\<rparr>"

text \<open>
  The same runner without the cache, so that the installation runs; the version lookup
  exits with code 1 and every other command with code 0.
\<close>

definition example_lookup_fails :: world where
  "example_lookup_fails =
     example_linux
       \<lparr>inputs := (\<lambda>_. [])(''set-env'' := ''true''),
        exec_outcome_at :=
          (\<lambda>_ command _. if command = ''python -m aqt list-qt'' then Exited 1 [] else Exited 0 [])\<rparr>"

section \<open>Facts about the string helpers\<close>

lemma js_split_not_Nil: "js_split c s \<noteq> []"
  by (induction s) (auto split: list.splits)

lemma js_split_no_sep: "c \<notin> set s \<Longrightarrow> js_split c s = [s]"
  by (induction s) auto

lemma js_split_first: "c \<notin> set a \<Longrightarrow> js_split c (a @ c # r) = a # js_split c r"
  by (induction a) auto

lemma js_split_length_sep: "1 < length (js_split c (m @ c # b))"
proof (induction m)
  case Nil
  then show ?case using js_split_not_Nil [of c b] by (cases "js_split c b") auto
next
  case (Cons x m)
  then show ?case by (cases "js_split c (m @ c # b)") auto
qed

lemma js_split_last: "c \<notin> set b \<Longrightarrow> last (js_split c (m @ c # b)) = b"
proof (induction m)
  case Nil
  then show ?case by (simp add: js_split_no_sep)
next
  case (Cons x m)
  then show ?case
    using js_split_length_sep [of c m b]
    by (cases "js_split c (m @ c # b)") auto
qed

section \<open>Facts about actions and traces\<close>

lemma quietD: "quiet P m \<Longrightarrow> filter P (snd (m tr)) = filter P tr"
  by (simp add: quiet_def)

lemma quiet_retA [intro!]: "quiet P (retA x)"
  by (simp add: quiet_def retA_def)

lemma quiet_throwA [intro!]: "quiet P (throwA e)"
  by (simp add: quiet_def throwA_def)

lemma quiet_liftE [intro!]: "quiet P (liftE r)"
  by (simp add: quiet_def liftE_def)

lemma quiet_bindA [intro!]:
  assumes "quiet P m" and "\<And>x. quiet P (f x)"
  shows "quiet P (bindA m f)"
proof (unfold quiet_def, rule allI)
  fix tr
  show "filter P (snd (bindA m f tr)) = filter P tr"
  proof (cases "m tr")
    case (Pair r tr')
    have m: "filter P tr' = filter P tr"
      using quietD [OF assms(1), of tr] Pair by simp
    show ?thesis
    proof (cases r)
      case (Inl e)
      then show ?thesis using Pair m by (simp add: bindA_def)
    next
      case (Inr x)
      then show ?thesis
        using Pair m quietD [OF assms(2), of x tr'] by (simp add: bindA_def)
    qed
  qed
qed

lemma quiet_seqA [intro!]: "quiet P m \<Longrightarrow> quiet P n \<Longrightarrow> quiet P (seqA m n)"
  unfolding seqA_def by (rule quiet_bindA)

lemma quiet_if [intro!]: "(c \<Longrightarrow> quiet P m) \<Longrightarrow> (\<not> c \<Longrightarrow> quiet P n) \<Longrightarrow> quiet P (if c then m else n)"
  by simp

lemma quiet_case_prod [intro!]: "(\<And>a b. quiet P (f a b)) \<Longrightarrow> quiet P (case x of (a, b) \<Rightarrow> f a b)"
  by (cases x) simp

lemma quiet_exec_exec [intro!]: "\<not> P (Exec c a) \<Longrightarrow> quiet P (exec_exec w c a)"
  by (simp add: quiet_def exec_exec_def split: exec_outcome.splits)

lemma quiet_emit_all: "\<forall>e \<in> set evs. \<not> P e \<Longrightarrow> quiet P (emit_all evs)"
  by (simp add: quiet_def emit_all_def)

lemma quiet_determineVersion: "\<not> P (Exec (pythonName w @ '' -m aqt list-qt'')
              [host w, target w, ''--spec'', dquote @ simpleSpec w @ dquote, ''--latest'']) \<Longrightarrow> quiet P (determineVersion w)"
  unfolding determineVersion_def executeCaptureStdout_def by (intro quiet_bindA quiet_case_prod quiet_if quiet_retA quiet_throwA quiet_exec_exec)

lemma quiet_mutation_determineVersion: "quiet is_mutation (determineVersion w)"
  by (rule quiet_determineVersion) simp

lemma quiet_mutation_run_install_tools: "quiet is_mutation (run_install_tools w)"
  unfolding run_install_tools_def by (auto intro!: quiet_emit_all)

lemma quiet_mutation_run_prepare: "quiet is_mutation (run_prepare w)"
  unfolding run_prepare_def run_setup_python_def run_install_deps_def run_install_def
    run_install_packages_def run_install_qt_def
  by (intro quiet_seqA quiet_bindA quiet_if quiet_case_prod quiet_retA quiet_liftE
        quiet_exec_exec quiet_mutation_determineVersion quiet_mutation_run_install_tools quiet_emit_all) simp_all

lemma quiet_bindA_liftE:
  "(\<And>x. r = Inr x \<Longrightarrow> quiet P (f x)) \<Longrightarrow> quiet P (bindA (liftE r) f)"
  by (cases r) (simp_all add: quiet_def bindA_def liftE_def)

lemma export_qt_dir_cases:
  "export_qt_dir qt v = Inr evs \<Longrightarrow>
     evs = [ExportVariable ''Qt5_Dir'' qt, ExportVariable ''Qt5_DIR'' qt]
     \<or> evs = [ExportVariable ''Qt6_DIR'' qt]"
  by (auto simp: export_qt_dir_def bindE_def split: sum.splits if_splits)

lemma export_qt_dir_mutation:
  "export_qt_dir qt v = Inr evs \<Longrightarrow> e \<in> set evs \<Longrightarrow> is_mutation e \<and> \<not> is_exec e"
  by (drule export_qt_dir_cases) auto

lemma quiet_exec_run_set_env: "quiet is_exec (run_set_env w qt v)"
  unfolding run_set_env_def
  by (intro quiet_seqA quiet_bindA_liftE quiet_emit_all)
     (auto simp: export_tools_def export_ld_library_path_def export_pkg_config_path_def
        export_paths_def dest: export_qt_dir_mutation)

lemma run_shape:
  "run w =
     (case run_prepare w [] of
        (Inl e, tr) \<Rightarrow> tr @ [SetFailed (message e)]
      | (Inr _, tr) \<Rightarrow>
          (case determineVersion w tr of
             (Inl e, tr') \<Rightarrow> tr' @ [SetFailed (message e)]
           | (Inr v, tr') \<Rightarrow>
               if setEnv w = ''true''
               then (case run_set_env w (qtPath w v) v tr' of
                       (Inl e, t) \<Rightarrow> t @ [SetFailed (message e)]
                     | (Inr _, t) \<Rightarrow> t)
               else tr'))"
  by (simp add: run_def run_body_def run_project_def seqA_def bindA_def retA_def
        split: prod.splits sum.splits)

lemma filter_sub: "(\<And>e. P e \<Longrightarrow> Q e) \<Longrightarrow> filter P (filter Q xs) = filter P xs"
  by (induction xs) auto

lemma quiet_sub:
  assumes "quiet Q m" and "\<And>e. P e \<Longrightarrow> Q e"
  shows "quiet P m"
proof (unfold quiet_def, rule allI)
  fix tr
  have sub: "filter P (filter Q xs) = filter P xs" for xs
    using assms(2) by (rule filter_sub)
  have "filter P (snd (m tr)) = filter P (filter Q (snd (m tr)))"
    by (simp only: sub)
  also have "\<dots> = filter P (filter Q tr)"
    by (simp only: quietD [OF assms(1)])
  also have "\<dots> = filter P tr"
    by (simp only: sub)
  finally show "filter P (snd (m tr)) = filter P tr" .
qed

lemma mutations_prepare: "run_prepare w [] = (r, tr) \<Longrightarrow> filter is_mutation tr = []"
  using quietD [OF quiet_mutation_run_prepare, of w "[]"] by simp

lemma mutations_determineVersion:
  "determineVersion w tr = (r, tr') \<Longrightarrow> filter is_mutation tr' = filter is_mutation tr"
  using quietD [OF quiet_mutation_determineVersion, of w tr] by simp

lemma determineVersion_eq:
  "determineVersion w tr =
     (case exec_outcome_at w (length tr) (pythonName w @ '' -m aqt list-qt'')
             [host w, target w, ''--spec'', dquote @ simpleSpec w @ dquote, ''--latest''] of
        Rejected m \<Rightarrow> Inl (Error m)
      | Exited return_value output \<Rightarrow>
          if return_value \<noteq> 0
          then Inl (Error (''Failed to resolve Qt version from SimpleSpec ''
                            @ squote @ simpleSpec w @ squote))
          else Inr (trim output),
      tr @ [Exec (pythonName w @ '' -m aqt list-qt'')
              [host w, target w, ''--spec'', dquote @ simpleSpec w @ dquote, ''--latest'']])"
  by (simp add: determineVersion_def executeCaptureStdout_def exec_exec_def bindA_def retA_def
        throwA_def split: exec_outcome.splits)

lemma run_first_lookup_fails:
  assumes "inputs w ''cached'' \<noteq> ''true''"
    and "run_setup_python w [] = (Inr (), tr0)"
    and "run_install_deps w tr0 = (Inr (), tr1)"
    and "run_install_packages w tr1 = (Inr (), tr2)"
    and "determineVersion w tr2 = (Inl e, tr3)"
  shows "run w = tr3 @ [SetFailed (message e)]"
  using assms
  by (simp add: run_def run_body_def run_prepare_def run_install_def run_install_qt_def
        seqA_def bindA_def)

lemma run_second_lookup_fails:
  assumes "run_prepare w [] = (Inr (), tr)" and "determineVersion w tr = (Inl e, tr')"
  shows "run w = tr' @ [SetFailed (message e)]"
  using assms by (simp add: run_shape)

section \<open>Facts about version comparison and the exports\<close>

lemma compare_ge: "version_triple v = Some t \<Longrightarrow> version_triple r = Some u \<Longrightarrow>
   compareVersions_compare v r ''>='' = Inr (u \<le> t)"
  by (simp add: compareVersions_compare_def)

lemma compare_lt: "version_triple v = Some t \<Longrightarrow> version_triple r = Some u \<Longrightarrow>
   compareVersions_compare v r ''<'' = Inr (t < u)"
  by (simp add: compareVersions_compare_def)

lemma version_triple_consts:
  "version_triple ''5.15.0'' = Some (5, 15, 0)"
  "version_triple ''5.6.0'' = Some (5, 6, 0)"
  "version_triple ''5.9.0'' = Some (5, 9, 0)"
  "version_triple ''6.0.0'' = Some (6, 0, 0)"
  by (simp_all add: version_triple_def parse_nat_def is_digit_def digit_val_def)

lemma digit_char:
  assumes "d < 10"
  shows "is_digit (''0123456789'' ! d)" and "digit_val (''0123456789'' ! d) = d"
    and "''0123456789'' ! d \<noteq> CHR ''.''"
proof -
  from assms have "d \<in> {0, 1, 2, 3, 4, 5, 6, 7, 8, 9}" by auto
  then show "is_digit (''0123456789'' ! d)" and "digit_val (''0123456789'' ! d) = d"
    and "''0123456789'' ! d \<noteq> CHR ''.''"
    by (auto simp: is_digit_def digit_val_def)
qed

lemma decimal_digits: "decimal n \<noteq> [] \<and> list_all is_digit (decimal n) \<and> CHR ''.'' \<notin> set (decimal n)
   \<and> foldl (\<lambda>n c. 10 * n + digit_val c) 0 (decimal n) = n"
proof (induction n rule: decimal.induct)
  case (1 n)
  show ?case
  proof (cases "n < 10")
    case True
    then show ?thesis using digit_char [of n] by (subst (1 2 3 4) decimal.simps) auto
  next
    case False
    have m: "n mod 10 < 10" by simp
    show ?thesis using False 1 digit_char [OF m]
      by (subst (1 2 3 4) decimal.simps) auto
  qed
qed

lemma parse_nat_decimal: "parse_nat (decimal n) = Some n"
  using decimal_digits [of n] by (simp add: parse_nat_def)

lemma version_triple_version_string:
  "version_triple (version_string major minor patch) = Some (major, minor, patch)"
proof -
  have d: "CHR ''.'' \<notin> set (decimal k)" for k using decimal_digits [of k] by simp
  have "js_split CHR ''.'' (version_string major minor patch) = [decimal major, decimal minor, decimal patch]"
    using js_split_first [OF d, of major "decimal minor @ CHR ''.'' # decimal patch"]
      js_split_first [OF d, of minor "decimal patch"] js_split_no_sep [OF d, of patch]
    by (simp add: version_string_def)
  then show ?thesis by (simp add: version_triple_def parse_nat_decimal)
qed

lemma triple_less_eq_iff:
  "((a :: nat, b :: nat, c :: nat) \<le> (x, y, z)) = (a < x \<or> a = x \<and> (b < y \<or> b = y \<and> c \<le> z))"
  by (auto simp: less_eq_prod_def)

lemma triple_less_iff:
  "((a :: nat, b :: nat, c :: nat) < (x, y, z)) = (a < x \<or> a = x \<and> (b < y \<or> b = y \<and> c < z))"
  by (auto simp: less_prod_def)

lemmas run_defs = run_def run_body_def run_prepare_def run_project_def
     run_setup_python_def run_install_deps_def run_install_def run_install_packages_def
     run_install_qt_def run_install_tools_def determineVersion_def executeCaptureStdout_def
     exec_exec_def seqA_def bindA_def retA_def throwA_def liftE_def emit_all_def
     pythonName_def host_def target_def simpleSpec_def getDefaultHost_def setEnv_def
     run_set_env_def qtPath_def dir_def js_str_def js_index_def version_dir_def tools_def
     export_tools_def export_ld_library_path_def export_pkg_config_path_def export_qt_dir_def
     export_paths_def truthy_def trim_def is_space_def dquote_def squote_def
     compareVersions_compare_def version_triple_def parse_nat_def is_digit_def digit_val_def bindE_def
     default_arch_def args_def extraArgs_def tool_command_def toolName_def variantName_def

lemma run_set_env_ok:
  assumes "version_triple v = Some t"
  shows "run_set_env w qt v tr =
     (Inr (), tr @ export_tools w @ export_ld_library_path w qt @ export_pkg_config_path w qt
        @ (if t < (6, 0, 0) then [ExportVariable ''Qt5_Dir'' qt, ExportVariable ''Qt5_DIR'' qt]
           else [ExportVariable ''Qt6_DIR'' qt])
        @ export_paths qt)"
  using assms
  by (simp add: run_set_env_def seqA_def bindA_def emit_all_def liftE_def export_qt_dir_def
        bindE_def compare_lt version_triple_consts)

lemma run_set_env_shape:
  "run_set_env w qt v tr =
     (case export_qt_dir qt v of
        Inl e \<Rightarrow> (Inl e, tr @ export_tools w @ export_ld_library_path w qt
                          @ export_pkg_config_path w qt)
      | Inr evs \<Rightarrow> (Inr (), tr @ export_tools w @ export_ld_library_path w qt
                            @ export_pkg_config_path w qt @ evs @ export_paths qt))"
  by (simp add: run_set_env_def seqA_def bindA_def emit_all_def liftE_def split: sum.splits)

lemma ld_export_tools: "filter (exports ''LD_LIBRARY_PATH'') (export_tools w) = []"
  by (simp add: export_tools_def)

lemma ld_export_pkg: "filter (exports ''LD_LIBRARY_PATH'') (export_pkg_config_path w qt) = []"
  by (simp add: export_pkg_config_path_def)

lemma ld_export_paths: "filter (exports ''LD_LIBRARY_PATH'') (export_paths qt) = []"
  by (simp add: export_paths_def)

lemma ld_export_qt_dir:
  "export_qt_dir qt v = Inr evs \<Longrightarrow> filter (exports ''LD_LIBRARY_PATH'') evs = []"
  by (drule export_qt_dir_cases) auto

lemma ld_export_ld:
  "filter (exports ''LD_LIBRARY_PATH'') (export_ld_library_path w qt) = export_ld_library_path w qt"
  by (simp add: export_ld_library_path_def)

lemma ld_run_set_env:
  "filter (exports ''LD_LIBRARY_PATH'') (snd (run_set_env w qt v tr)) =
     filter (exports ''LD_LIBRARY_PATH'') tr @ export_ld_library_path w qt"
  by (simp add: run_set_env_shape ld_export_tools ld_export_pkg ld_export_paths ld_export_ld
        ld_export_qt_dir split: sum.splits)

lemma exports_mutation: "exports n e \<Longrightarrow> is_mutation e"
  by (cases e) auto

lemma ld_prepare: "run_prepare w [] = (r, tr) \<Longrightarrow> filter (exports ''LD_LIBRARY_PATH'') tr = []"
  using quietD [OF quiet_sub [OF quiet_mutation_run_prepare, of "exports ''LD_LIBRARY_PATH''"], of w "[]"]
  by (simp add: exports_mutation)

lemma ld_determineVersion:
  "determineVersion w tr = (r, tr') \<Longrightarrow>
     filter (exports ''LD_LIBRARY_PATH'') tr' = filter (exports ''LD_LIBRARY_PATH'') tr"
  using quietD [OF quiet_sub [OF quiet_mutation_determineVersion, of "exports ''LD_LIBRARY_PATH''"], of w tr]
  by (simp add: exports_mutation)

lemma ld_run:
  "filter (exports ''LD_LIBRARY_PATH'') (run w) =
     (case run_prepare w [] of
        (Inl e, tr) \<Rightarrow> []
      | (Inr _, tr) \<Rightarrow>
          (case determineVersion w tr of
             (Inl e, tr') \<Rightarrow> []
           | (Inr v, tr') \<Rightarrow>
               if setEnv w = ''true'' then export_ld_library_path w (qtPath w v) else []))"
proof (cases "run_prepare w []")
  case p: (Pair r tr)
  note p0 = ld_prepare [OF p]
  show ?thesis
  proof (cases r)
    case (Inl e)
    then show ?thesis using p p0 by (simp add: run_shape)
  next
    case (Inr u)
    show ?thesis
    proof (cases "determineVersion w tr")
      case d: (Pair r' tr')
      have d0: "filter (exports ''LD_LIBRARY_PATH'') tr' = []"
        using ld_determineVersion [OF d] p0 by simp
      show ?thesis
      proof (cases r')
        case (Inl e)
        then show ?thesis using p Inr d d0 by (simp add: run_shape)
      next
        case v: (Inr v)
        have "filter (exports ''LD_LIBRARY_PATH'') (snd (run_set_env w (qtPath w v) v tr'))
                = export_ld_library_path w (qtPath w v)"
          using d0 by (simp add: ld_run_set_env)
        then show ?thesis using p Inr d d0 v
          by (cases "run_set_env w (qtPath w v) v tr'")
             (auto simp: run_shape split: sum.splits)
      qed
    qed
  qed
qed

lemma set_env_irrelevant:
  "dir (w\<lparr>inputs := (inputs w)(''set-env'' := s)\<rparr>) = dir w"
  "tools (w\<lparr>inputs := (inputs w)(''set-env'' := s)\<rparr>) = tools w"
  "pythonName (w\<lparr>inputs := (inputs w)(''set-env'' := s)\<rparr>) = pythonName w"
  "host (w\<lparr>inputs := (inputs w)(''set-env'' := s)\<rparr>) = host w"
  "target (w\<lparr>inputs := (inputs w)(''set-env'' := s)\<rparr>) = target w"
  "simpleSpec (w\<lparr>inputs := (inputs w)(''set-env'' := s)\<rparr>) = simpleSpec w"
  "exec_exec (w\<lparr>inputs := (inputs w)(''set-env'' := s)\<rparr>) = exec_exec w"
  by (simp_all add: dir_def tools_def pythonName_def host_def target_def simpleSpec_def
        exec_exec_def fun_eq_iff)

lemma set_env_irrelevant_determineVersion:
  "determineVersion (w\<lparr>inputs := (inputs w)(''set-env'' := s)\<rparr>) = determineVersion w"
  by (simp add: determineVersion_def executeCaptureStdout_def set_env_irrelevant cong: if_cong)

lemma set_env_irrelevant_prepare:
  "run_prepare (w\<lparr>inputs := (inputs w)(''set-env'' := s)\<rparr>) = run_prepare w"
  by (simp add: run_prepare_def run_setup_python_def run_install_deps_def run_install_def
        run_install_packages_def run_install_qt_def run_install_tools_def tool_command_def
        set_env_irrelevant set_env_irrelevant_determineVersion
        split del: if_split cong: if_cong)

lemma exec_run: "filter is_exec (run w) = filter is_exec (run_until_projection w)"
proof (cases "run_prepare w []")
  case p: (Pair r tr)
  show ?thesis
  proof (cases r)
    case (Inl e)
    then show ?thesis using p by (simp add: run_shape run_until_projection_def)
  next
    case (Inr u)
    show ?thesis
    proof (cases "determineVersion w tr")
      case d: (Pair r' tr')
      show ?thesis
      proof (cases r')
        case (Inl e)
        then show ?thesis using p Inr d by (simp add: run_shape run_until_projection_def)
      next
        case v: (Inr v)
        have "filter is_exec (snd (run_set_env w (qtPath w v) v tr')) = filter is_exec tr'"
          by (rule quietD [OF quiet_exec_run_set_env])
        then show ?thesis using p Inr d v
          by (cases "run_set_env w (qtPath w v) v tr'")
             (auto simp: run_shape run_until_projection_def split: sum.splits)
      qed
    qed
  qed
qed

lemma mutations_run_no_set_env: "setEnv w \<noteq> ''true'' \<Longrightarrow> mutations (run w) = []"
proof (cases "run_prepare w []")
  case p: (Pair r tr)
  assume s: "setEnv w \<noteq> ''true''"
  note p0 = mutations_prepare [OF p]
  show ?thesis
  proof (cases "determineVersion w tr")
    case d: (Pair r' tr')
    have "filter is_mutation tr' = []"
      using mutations_determineVersion [OF d] p0 by simp
    then show ?thesis using p p0 d s
      by (auto simp: run_shape mutations_def split: sum.splits)
  qed
qed

section \<open>The architecture token of the installer arguments\<close>

text \<open>
  Claim C1 says that, for a non-empty architecture, the installer's argument vector holds
  the architecture token exactly when the host is windows or android, or the target is
  android, or the architecture is wasm_32.  The guard of line 117 does not look for the
  host android: with host android and target desktop the architecture chosen by lines
  110-111 is android_armv7, and the vector built from it has no architecture token.
\<close>

theorem C1_arch_token_counterexample:
  "''android_armv7'' \<noteq> [] \<and> ''android'' \<in> {''windows'', ''android''}
   \<and> default_arch ''android'' ''5.15.2'' [] = Inr ''android_armv7''
   \<and> args ''android'' ''desktop'' ''5.15.2'' ''android_armv7'' [] ''/w/Qt'' []
       = [''android'', ''desktop'', ''5.15.2'', ''-O'', ''/w/Qt'']"
  by (simp add: default_arch_def args_def extraArgs_def)

text \<open>
  Claim C1, as the code has it.  The argument vector is host, target and version, then
  the architecture token exactly when the architecture is non-empty and the host is
  windows, or the target is android, or the architecture is wasm_32, then the modules
  behind \<^verbatim>\<open>-m\<close> when there are any, then the output directory and the extra words.  So an
  empty architecture is never a token, and an architecture outside the three conditions
  is left out even when one was computed.
\<close>

theorem C1_arch_token:
  "args h t v arch modules d extra =
     [h, t, v]
     @ (if arch \<noteq> [] \<and> (h = ''windows'' \<or> t = ''android'' \<or> arch = ''wasm_32'')
        then [arch] else [])
     @ (if modules \<noteq> [] then ''-m'' # js_split CHR '' '' modules else [])
     @ extraArgs d extra"
  by (simp add: args_def Let_def)

theorem C1_arch_token_witness:
  "args ''windows'' ''desktop'' ''5.15.2'' ''win64_mingw81'' ''qtcharts'' ''/w/Qt'' []
     = [''windows'', ''desktop'', ''5.15.2'', ''win64_mingw81'', ''-m'', ''qtcharts'', ''-O'', ''/w/Qt'']
   \<and> args ''mac'' ''desktop'' ''5.15.2'' [] [] ''/w/Qt'' []
     = [''mac'', ''desktop'', ''5.15.2'', ''-O'', ''/w/Qt'']
   \<and> args ''linux'' ''desktop'' ''5.15.2'' ''gcc_64'' [] ''/w/Qt'' []
     = [''linux'', ''desktop'', ''5.15.2'', ''-O'', ''/w/Qt'']"
  using C1_arch_token [of "''windows''" "''desktop''" "''5.15.2''" "''win64_mingw81''" "''qtcharts''" "''/w/Qt''" "[]"]
    C1_arch_token [of "''mac''" "''desktop''" "''5.15.2''" "[]" "[]" "''/w/Qt''" "[]"]
    C1_arch_token [of "''linux''" "''desktop''" "''5.15.2''" "''gcc_64''" "[]" "''/w/Qt''" "[]"]
  by (simp add: extraArgs_def)

section \<open>Resolving the version\<close>

text \<open>
  Claim C2 says that the version lookup fails when the external command exits with a
  non-zero code or prints nothing but white space.  Lines 79-80 test the exit code only: a
  lookup that exits with code 0 and prints a blank line returns the empty string as the
  version, and with \<^verbatim>\<open>set-env\<close> off the run ends without any failure.
\<close>

theorem C2_determineVersion_counterexample:
  "determineVersion (example_linux\<lparr>exec_outcome_at := (\<lambda>_ _ _. Exited 0 [CHR 0x20, CHR 0x0A])\<rparr>) []
     = (Inr [], [Exec ''python -m aqt list-qt''
                   [''linux'', ''desktop'', ''--spec'', dquote @ ''6.2'' @ dquote, ''--latest'']])
   \<and> run (example_linux\<lparr>exec_outcome_at := (\<lambda>_ _ _. Exited 0 [CHR 0x20, CHR 0x0A]),
                         inputs := (inputs example_linux)(''set-env'' := ''false'')\<rparr>)
     = [Exec ''python -m aqt list-qt''
          [''linux'', ''desktop'', ''--spec'', dquote @ ''6.2'' @ dquote, ''--latest'']]"
  by (simp add: example_linux_def run_defs)

text \<open>
  Claim C2, as the code has it.  The lookup runs \<^verbatim>\<open>aqt list-qt\<close> with the host, the target,
  the quoted specifier behind \<^verbatim>\<open>--spec\<close> and \<^verbatim>\<open>--latest\<close>.  It fails when the command is
  rejected or exits with a non-zero code, and otherwise returns the trimmed output, also
  when that is empty.  A failure of either lookup of a run, the one before the installation
  and the one after it, ends the run at once with \<^verbatim>\<open>setFailed\<close> and the error's message.
\<close>

theorem C2_determineVersion:
  "determineVersion w tr =
     (case exec_outcome_at w (length tr) (pythonName w @ '' -m aqt list-qt'')
             [host w, target w, ''--spec'', dquote @ simpleSpec w @ dquote, ''--latest''] of
        Rejected m \<Rightarrow> Inl (Error m)
      | Exited return_value output \<Rightarrow>
          if return_value \<noteq> 0
          then Inl (Error (''Failed to resolve Qt version from SimpleSpec ''
                            @ squote @ simpleSpec w @ squote))
          else Inr (trim output),
      tr @ [Exec (pythonName w @ '' -m aqt list-qt'')
              [host w, target w, ''--spec'', dquote @ simpleSpec w @ dquote, ''--latest'']])
   \<and> (inputs w ''cached'' \<noteq> ''true'' \<and> run_setup_python w [] = (Inr (), tr0)
        \<and> run_install_deps w tr0 = (Inr (), tr1) \<and> run_install_packages w tr1 = (Inr (), tr2)
        \<and> determineVersion w tr2 = (Inl e, tr3)
        \<longrightarrow> run w = tr3 @ [SetFailed (message e)])
   \<and> (run_prepare w [] = (Inr (), tr4) \<and> determineVersion w tr4 = (Inl e', tr5)
        \<longrightarrow> run w = tr5 @ [SetFailed (message e')])"
  using determineVersion_eq run_first_lookup_fails run_second_lookup_fails by blast

theorem C2_determineVersion_witness:
  "inputs example_lookup_fails ''cached'' \<noteq> ''true''
   \<and> run_setup_python example_lookup_fails [] = (Inr (), [])
   \<and> run_install_deps example_lookup_fails [] = (Inr (), [])
   \<and> run_install_packages example_lookup_fails [] =
        (Inr (), [Exec ''python -m pip install setuptools wheel'' [],
                  Exec (''python -m pip install '' @ dquote @ ''py7zr'' @ dquote) [],
                  Exec (''python -m pip install '' @ dquote @ ''aqtinstall'' @ dquote) []])
   \<and> determineVersion example_lookup_fails
        [Exec ''python -m pip install setuptools wheel'' [],
         Exec (''python -m pip install '' @ dquote @ ''py7zr'' @ dquote) [],
         Exec (''python -m pip install '' @ dquote @ ''aqtinstall'' @ dquote) []] =
        (Inl (Error (''Failed to resolve Qt version from SimpleSpec '' @ squote @ ''6.2'' @ squote)),
         [Exec ''python -m pip install setuptools wheel'' [],
          Exec (''python -m pip install '' @ dquote @ ''py7zr'' @ dquote) [],
          Exec (''python -m pip install '' @ dquote @ ''aqtinstall'' @ dquote) [],
          Exec ''python -m aqt list-qt''
            [''linux'', ''desktop'', ''--spec'', dquote @ ''6.2'' @ dquote, ''--latest'']])
   \<and> run example_lookup_fails =
        [Exec ''python -m pip install setuptools wheel'' [],
         Exec (''python -m pip install '' @ dquote @ ''py7zr'' @ dquote) [],
         Exec (''python -m pip install '' @ dquote @ ''aqtinstall'' @ dquote) [],
         Exec ''python -m aqt list-qt''
           [''linux'', ''desktop'', ''--spec'', dquote @ ''6.2'' @ dquote, ''--latest'']]
        @ [SetFailed (''Failed to resolve Qt version from SimpleSpec '' @ squote @ ''6.2'' @ squote)]
   \<and> run_prepare (example_linux\<lparr>exec_outcome_at := (\<lambda>_ _ _. Exited 1 [])\<rparr>) [] = (Inr (), [])
   \<and> determineVersion (example_linux\<lparr>exec_outcome_at := (\<lambda>_ _ _. Exited 1 [])\<rparr>) [] =
        (Inl (Error (''Failed to resolve Qt version from SimpleSpec '' @ squote @ ''6.2'' @ squote)),
         [Exec ''python -m aqt list-qt''
            [''linux'', ''desktop'', ''--spec'', dquote @ ''6.2'' @ dquote, ''--latest'']])
   \<and> run (example_linux\<lparr>exec_outcome_at := (\<lambda>_ _ _. Exited 1 [])\<rparr>) =
        [Exec ''python -m aqt list-qt''
           [''linux'', ''desktop'', ''--spec'', dquote @ ''6.2'' @ dquote, ''--latest'']]
        @ [SetFailed (''Failed to resolve Qt version from SimpleSpec '' @ squote @ ''6.2'' @ squote)]"
proof -
  let ?w = example_lookup_fails
  let ?u = "example_linux\<lparr>exec_outcome_at := (\<lambda>_ _ _. Exited 1 [])\<rparr>"
  let ?pk = "[Exec ''python -m pip install setuptools wheel'' [],
              Exec (''python -m pip install '' @ dquote @ ''py7zr'' @ dquote) [],
              Exec (''python -m pip install '' @ dquote @ ''aqtinstall'' @ dquote) []]"
  let ?q = "Exec ''python -m aqt list-qt''
              [''linux'', ''desktop'', ''--spec'', dquote @ ''6.2'' @ dquote, ''--latest'']"
  let ?e = "Error (''Failed to resolve Qt version from SimpleSpec '' @ squote @ ''6.2'' @ squote)"
  have h1: "inputs ?w ''cached'' \<noteq> ''true''"
    by (simp add: example_lookup_fails_def example_linux_def)
  have h2: "run_setup_python ?w [] = (Inr (), [])"
    by (simp add: example_lookup_fails_def example_linux_def run_setup_python_def retA_def)
  have h3: "run_install_deps ?w [] = (Inr (), [])"
    by (simp add: example_lookup_fails_def example_linux_def run_install_deps_def retA_def)
  have h4: "run_install_packages ?w [] = (Inr (), ?pk)"
    by (simp add: example_lookup_fails_def example_linux_def run_install_packages_def
          exec_exec_def seqA_def bindA_def retA_def pythonName_def dquote_def)
  have h5: "determineVersion ?w ?pk = (Inl ?e, ?pk @ [?q])"
    by (simp add: determineVersion_eq example_lookup_fails_def example_linux_def pythonName_def
          host_def target_def simpleSpec_def getDefaultHost_def)
  have r1: "run ?w = (?pk @ [?q]) @ [SetFailed (message ?e)]"
    using C2_determineVersion [of ?w "[]" "[]" "[]" ?pk ?e "?pk @ [?q]" "[]" ?e "[]"]
      h1 h2 h3 h4 h5 by blast
  have k1: "run_prepare ?u [] = (Inr (), [])"
    by (simp add: example_linux_def run_prepare_def run_setup_python_def run_install_deps_def
          seqA_def bindA_def retA_def)
  have k2: "determineVersion ?u [] = (Inl ?e, [?q])"
    by (simp add: determineVersion_eq example_linux_def pythonName_def
          host_def target_def simpleSpec_def getDefaultHost_def)
  have r2: "run ?u = [?q] @ [SetFailed (message ?e)]"
    using C2_determineVersion [of ?u "[]" "[]" "[]" "[]" ?e "[]" "[]" ?e "[?q]"] k1 k2 by blast
  show ?thesis
    using h1 h2 h3 h4 h5 r1 k1 k2 r2 by simp
qed

section \<open>The glob and the emission of the mutations\<close>

text \<open>
  Claim C3 says that a glob with no match or with several matches is a fatal error, and
  that no mutation is emitted when an earlier step fails.  Line 159 takes element 0 of the
  matches without looking at their number: with no match the path is \<^verbatim>\<open>undefined\<close>, the
  run exports every variable from it and does not fail; with two matches it uses the first
  and does not fail either.
\<close>

theorem C3_mutations_counterexample:
  "glob_sync (example_linux\<lparr>glob_sync := (\<lambda>_. [])\<rparr>) ''/w/Qt/6.2.0/**/*'' = []
   \<and> run (example_linux\<lparr>glob_sync := (\<lambda>_. [])\<rparr>) =
     [Exec ''python -m aqt list-qt''
        [''linux'', ''desktop'', ''--spec'', dquote @ ''6.2'' @ dquote, ''--latest''],
      ExportVariable ''LD_LIBRARY_PATH'' (Some ''undefined/lib''),
      ExportVariable ''PKG_CONFIG_PATH'' (Some ''undefined/lib/pkgconfig''),
      ExportVariable ''Qt6_DIR'' None,
      ExportVariable ''QT_PLUGIN_PATH'' (Some ''undefined/plugins''),
      ExportVariable ''QML2_IMPORT_PATH'' (Some ''undefined/qml''),
      AddPath ''undefined/bin'']
   \<and> length (glob_sync example_linux ''/w/Qt/6.2.0/**/*'') = 2
   \<and> run example_linux =
     [Exec ''python -m aqt list-qt''
        [''linux'', ''desktop'', ''--spec'', dquote @ ''6.2'' @ dquote, ''--latest''],
      ExportVariable ''LD_LIBRARY_PATH'' (Some ''/w/Qt/6.2.0/gcc_64/lib''),
      ExportVariable ''PKG_CONFIG_PATH'' (Some ''/w/Qt/6.2.0/gcc_64/lib/pkgconfig''),
      ExportVariable ''Qt6_DIR'' (Some ''/w/Qt/6.2.0/gcc_64''),
      ExportVariable ''QT_PLUGIN_PATH'' (Some ''/w/Qt/6.2.0/gcc_64/plugins''),
      ExportVariable ''QML2_IMPORT_PATH'' (Some ''/w/Qt/6.2.0/gcc_64/qml''),
      AddPath ''/w/Qt/6.2.0/gcc_64/bin'']"
  by (simp add: example_linux_def run_defs)

text \<open>
  Claim C3, as the code has it.  No mutation is emitted when a step before the second
  version lookup fails (the first lookup is one of them), nor when the second lookup
  fails.  When the second lookup returns a dotted version and \<^verbatim>\<open>set-env\<close> is \<^verbatim>\<open>true\<close>, the
  run emits the whole list of mutations after a trace that has none, and does not fail;
  the installation path in them is the first match of the glob, or \<^verbatim>\<open>undefined\<close> when
  there is no match, whatever the number of matches.
\<close>

theorem C3_mutations:
  "(run_prepare w [] = (Inl e, tr) \<longrightarrow> mutations (run w) = [])
   \<and> (run_prepare w [] = (Inr (), tr) \<and> determineVersion w tr = (Inl e, tr')
        \<longrightarrow> mutations (run w) = [])
   \<and> (run_prepare w [] = (Inr (), tr) \<and> determineVersion w tr = (Inr v, tr')
        \<and> setEnv w = ''true'' \<and> version_triple v = Some t
        \<longrightarrow> mutations tr' = []
          \<and> run w = tr' @ export_tools w @ export_ld_library_path w (qtPath w v)
                @ export_pkg_config_path w (qtPath w v)
                @ (if t < (6, 0, 0)
                   then [ExportVariable ''Qt5_Dir'' (qtPath w v), ExportVariable ''Qt5_DIR'' (qtPath w v)]
                   else [ExportVariable ''Qt6_DIR'' (qtPath w v)])
                @ export_paths (qtPath w v)
          \<and> qtPath w v = (case glob_sync w (dir w @ ''/'' @ version_dir v @ ''/**/*'') of
                            [] \<Rightarrow> None | p # _ \<Rightarrow> Some p))"
proof -
  have a: "mutations (run w) = []" if "run_prepare w [] = (Inl e, tr)"
    using that mutations_prepare [OF that] by (simp add: run_shape mutations_def)
  have b: "mutations (run w) = []"
    if "run_prepare w [] = (Inr (), tr)" "determineVersion w tr = (Inl e, tr')"
    using that mutations_prepare [OF that(1)] mutations_determineVersion [OF that(2)]
    by (simp add: run_shape mutations_def)
  have c1: "mutations tr' = []"
    if "run_prepare w [] = (Inr (), tr)" "determineVersion w tr = (Inr v, tr')"
    using mutations_prepare [OF that(1)] mutations_determineVersion [OF that(2)]
    by (simp add: mutations_def)
  have c2: "run w = tr' @ export_tools w @ export_ld_library_path w (qtPath w v)
                @ export_pkg_config_path w (qtPath w v)
                @ (if t < (6, 0, 0)
                   then [ExportVariable ''Qt5_Dir'' (qtPath w v), ExportVariable ''Qt5_DIR'' (qtPath w v)]
                   else [ExportVariable ''Qt6_DIR'' (qtPath w v)])
                @ export_paths (qtPath w v)"
    if "run_prepare w [] = (Inr (), tr)" "determineVersion w tr = (Inr v, tr')"
      "setEnv w = ''true''" "version_triple v = Some t"
    using that by (simp add: run_shape run_set_env_ok)
  have c3: "qtPath w v = (case glob_sync w (dir w @ ''/'' @ version_dir v @ ''/**/*'') of
                            [] \<Rightarrow> None | p # _ \<Rightarrow> Some p)"
    by (simp add: qtPath_def js_index_def split: list.splits)
  show ?thesis using a b c1 c2 c3 by blast
qed

theorem C3_mutations_witness:
  "run_prepare example_lookup_fails [] =
     (Inl (Error (''Failed to resolve Qt version from SimpleSpec '' @ squote @ ''6.2'' @ squote)),
      [Exec ''python -m pip install setuptools wheel'' [],
       Exec (''python -m pip install '' @ dquote @ ''py7zr'' @ dquote) [],
       Exec (''python -m pip install '' @ dquote @ ''aqtinstall'' @ dquote) [],
       Exec ''python -m aqt list-qt''
         [''linux'', ''desktop'', ''--spec'', dquote @ ''6.2'' @ dquote, ''--latest'']])
   \<and> mutations (run example_lookup_fails) = []
   \<and> run_prepare (example_linux\<lparr>exec_outcome_at := (\<lambda>_ _ _. Rejected ''spawn failed'')\<rparr>) []
       = (Inr (), [])
   \<and> determineVersion (example_linux\<lparr>exec_outcome_at := (\<lambda>_ _ _. Rejected ''spawn failed'')\<rparr>) []
       = (Inl (Error ''spawn failed''),
          [Exec ''python -m aqt list-qt''
             [''linux'', ''desktop'', ''--spec'', dquote @ ''6.2'' @ dquote, ''--latest'']])
   \<and> mutations (run (example_linux\<lparr>exec_outcome_at := (\<lambda>_ _ _. Rejected ''spawn failed'')\<rparr>)) = []
   \<and> run_prepare example_linux [] = (Inr (), [])
   \<and> determineVersion example_linux [] =
        (Inr ''6.2.0'',
         [Exec ''python -m aqt list-qt''
            [''linux'', ''desktop'', ''--spec'', dquote @ ''6.2'' @ dquote, ''--latest'']])
   \<and> setEnv example_linux = ''true'' \<and> version_triple ''6.2.0'' = Some (6, 2, 0)
   \<and> qtPath example_linux ''6.2.0'' = Some ''/w/Qt/6.2.0/gcc_64''
   \<and> mutations (run example_linux) =
        [ExportVariable ''LD_LIBRARY_PATH'' (Some ''/w/Qt/6.2.0/gcc_64/lib''),
         ExportVariable ''PKG_CONFIG_PATH'' (Some ''/w/Qt/6.2.0/gcc_64/lib/pkgconfig''),
         ExportVariable ''Qt6_DIR'' (Some ''/w/Qt/6.2.0/gcc_64''),
         ExportVariable ''QT_PLUGIN_PATH'' (Some ''/w/Qt/6.2.0/gcc_64/plugins''),
         ExportVariable ''QML2_IMPORT_PATH'' (Some ''/w/Qt/6.2.0/gcc_64/qml''),
         AddPath ''/w/Qt/6.2.0/gcc_64/bin'']"
  using C3_mutations [where w = example_lookup_fails]
    C3_mutations [where w = "example_linux\<lparr>exec_outcome_at := (\<lambda>_ _ _. Rejected ''spawn failed'')\<rparr>"
      and tr = "[]"]
    C3_mutations [where w = example_linux and tr = "[]" and v = "''6.2.0''" and t = "(6, 2, 0)"]
  by (simp add: example_lookup_fails_def example_linux_def run_defs mutations_def)

text \<open>
  Remark.  The statement above speaks of a lookup that returns a dotted version.  When the
  lookup returns something else, such as the empty string of a blank output, the
  comparison of line 179 is refused after the exports of lines 161-177 have been made:
  with the model of the comparison used here, the run below exports two variables and
  then fails.
\<close>

lemma run_blank_version_partial:
  "run (example_linux\<lparr>exec_outcome_at := (\<lambda>_ _ _. Exited 0 [CHR 0x0A])\<rparr>) =
     [Exec ''python -m aqt list-qt''
        [''linux'', ''desktop'', ''--spec'', dquote @ ''6.2'' @ dquote, ''--latest''],
      ExportVariable ''LD_LIBRARY_PATH'' (Some ''undefined/lib''),
      ExportVariable ''PKG_CONFIG_PATH'' (Some ''undefined/lib/pkgconfig''),
      SetFailed ''Invalid argument not valid semver'']"
  by (simp add: example_linux_def run_defs)

section \<open>The default architecture\<close>

text \<open>
  Claim C4.  When no architecture is given, the rules are tried in order and the first
  that applies decides, versions being compared as numbers component by component: on
  windows a version of at least 5.15.0 gives win64_msvc2019_64, one below 5.6.0 gives
  win64_msvc2013_64, one below 5.9.0 gives win64_msvc2015_64 and any other gives
  win64_msvc2017_64; on android every version gives android_armv7; on every other host
  the architecture stays unset.  An architecture that is given is kept.  The windows rule
  is stated twice: for every string that reads as a version, in the order of triples, and
  for the text of every version number, in terms of its major and minor components.
\<close>

theorem C4_default_arch:
  "(version_triple v = Some t \<longrightarrow>
      default_arch ''windows'' v [] =
        Inr (if (5, 15, 0) \<le> t then ''win64_msvc2019_64''
             else if t < (5, 6, 0) then ''win64_msvc2013_64''
             else if t < (5, 9, 0) then ''win64_msvc2015_64''
             else ''win64_msvc2017_64''))
   \<and> default_arch ''windows'' (version_string major minor patch) [] =
        Inr (if 5 < major \<or> major = 5 \<and> 15 \<le> minor then ''win64_msvc2019_64''
             else if major < 5 \<or> major = 5 \<and> minor < 6 then ''win64_msvc2013_64''
             else if major < 5 \<or> major = 5 \<and> minor < 9 then ''win64_msvc2015_64''
             else ''win64_msvc2017_64'')
   \<and> default_arch ''android'' v [] = Inr ''android_armv7''
   \<and> (h \<noteq> ''windows'' \<and> h \<noteq> ''android'' \<longrightarrow> default_arch h v [] = Inr [])
   \<and> (a \<noteq> [] \<longrightarrow> default_arch h v a = Inr a)
   \<and> default_arch ''windows'' ''5.5.9'' [] = Inr ''win64_msvc2013_64''
   \<and> default_arch ''windows'' ''5.8.9'' [] = Inr ''win64_msvc2015_64''
   \<and> default_arch ''windows'' ''5.14.9'' [] = Inr ''win64_msvc2017_64''
   \<and> default_arch ''windows'' ''5.15.0'' [] = Inr ''win64_msvc2019_64''
   \<and> default_arch ''linux'' v [] = Inr []"
proof -
  have win: "default_arch ''windows'' v [] =
        Inr (if (5, 15, 0) \<le> t then ''win64_msvc2019_64''
             else if t < (5, 6, 0) then ''win64_msvc2013_64''
             else if t < (5, 9, 0) then ''win64_msvc2015_64''
             else ''win64_msvc2017_64'')" if "version_triple v = Some t" for v t
    using that
    by (simp add: default_arch_def bindE_def compare_ge compare_lt version_triple_consts)
  have str: "default_arch ''windows'' (version_string major minor patch) [] =
        Inr (if 5 < major \<or> major = 5 \<and> 15 \<le> minor then ''win64_msvc2019_64''
             else if major < 5 \<or> major = 5 \<and> minor < 6 then ''win64_msvc2013_64''
             else if major < 5 \<or> major = 5 \<and> minor < 9 then ''win64_msvc2015_64''
             else ''win64_msvc2017_64'')"
    using win [OF version_triple_version_string, of major minor patch]
    by (simp add: triple_less_eq_iff triple_less_iff)
  have t1: "version_triple ''5.5.9'' = Some (5, 5, 9)"
    and t2: "version_triple ''5.8.9'' = Some (5, 8, 9)"
    and t3: "version_triple ''5.14.9'' = Some (5, 14, 9)"
    by (simp_all add: version_triple_def parse_nat_def is_digit_def digit_val_def)
  have ex: "default_arch ''windows'' ''5.5.9'' [] = Inr ''win64_msvc2013_64''"
   "default_arch ''windows'' ''5.8.9'' [] = Inr ''win64_msvc2015_64''"
   "default_arch ''windows'' ''5.14.9'' [] = Inr ''win64_msvc2017_64''"
   "default_arch ''windows'' ''5.15.0'' [] = Inr ''win64_msvc2019_64''"
    using win [OF t1] win [OF t2] win [OF t3] win [OF version_triple_consts(1)]
    by (simp_all add: less_prod_def less_eq_prod_def)
  have other: "default_arch ''android'' v [] = Inr ''android_armv7''"
    "h \<noteq> ''windows'' \<and> h \<noteq> ''android'' \<longrightarrow> default_arch h v [] = Inr []"
    "a \<noteq> [] \<longrightarrow> default_arch h v a = Inr a"
    "default_arch ''linux'' v [] = Inr []"
    by (simp_all add: default_arch_def)
  show ?thesis using win str ex other by blast
qed

theorem C4_default_arch_witness:
  "version_triple ''6.2.4'' = Some (6, 2, 4)
   \<and> default_arch ''windows'' ''6.2.4'' [] = Inr ''win64_msvc2019_64''
   \<and> ''mac'' \<noteq> ''windows'' \<and> ''mac'' \<noteq> ''android'' \<and> default_arch ''mac'' ''6.2.4'' [] = Inr []
   \<and> ''win64_mingw81'' \<noteq> []
   \<and> default_arch ''mac'' ''6.2.4'' ''win64_mingw81'' = Inr ''win64_mingw81''"
proof -
  have t: "version_triple ''6.2.4'' = Some (6, 2, 4)"
    by (simp add: version_triple_def parse_nat_def is_digit_def digit_val_def)
  show ?thesis
    using t C4_default_arch [where v = "''6.2.4''" and t = "(6, 2, 4)" and h = "''mac''"
                               and a = "''win64_mingw81''" and major = 6 and minor = 2 and patch = 4]
    by (simp add: less_eq_prod_def)
qed

section \<open>The library search path\<close>

text \<open>
  Claim C5 ties the export of \<^verbatim>\<open>LD_LIBRARY_PATH\<close> to the host being linux.  Line 164 tests
  the platform of the runner, not the host: a Linux runner asked for the host windows
  exports the variable, and a macOS runner asked for the host linux does not.
\<close>

theorem C5_ld_library_path_counterexample:
  "host (example_linux\<lparr>inputs := (inputs example_linux)(''host'' := ''windows'')\<rparr>) = ''windows''
   \<and> filter (exports ''LD_LIBRARY_PATH'')
        (run (example_linux\<lparr>inputs := (inputs example_linux)(''host'' := ''windows'')\<rparr>))
       = [ExportVariable ''LD_LIBRARY_PATH'' (Some ''/w/Qt/6.2.0/gcc_64/lib'')]
   \<and> host (example_linux\<lparr>platform := ''darwin'',
                            inputs := (inputs example_linux)(''host'' := ''linux'')\<rparr>) = ''linux''
   \<and> filter (exports ''LD_LIBRARY_PATH'')
        (run (example_linux\<lparr>platform := ''darwin'',
                              inputs := (inputs example_linux)(''host'' := ''linux'')\<rparr>))
       = []"
  by (simp add: example_linux_def run_defs)

text \<open>
  Claim C5, as the code has it.  A run on a runner whose platform is linux, with \<^verbatim>\<open>set-env\<close>
  \<^verbatim>\<open>true\<close> and a second version lookup that succeeds, exports \<^verbatim>\<open>LD_LIBRARY_PATH\<close> once:
  the old value, a colon and the installation path with \<^verbatim>\<open>/lib\<close> when the variable was set
  to a non-empty value, and the installation path with \<^verbatim>\<open>/lib\<close> alone, with no colon before
  it, when the variable was unset or empty.  A run on any other platform, or with \<^verbatim>\<open>set-env\<close>
  other than \<^verbatim>\<open>true\<close>, does not export the variable, whatever the host.
\<close>

theorem C5_ld_library_path:
  "(run_prepare w [] = (Inr (), tr) \<and> determineVersion w tr = (Inr v, tr')
      \<and> setEnv w = ''true'' \<and> platform w = ''linux''
      \<longrightarrow> filter (exports ''LD_LIBRARY_PATH'') (run w) =
            [ExportVariable ''LD_LIBRARY_PATH''
               (Some (case env w ''LD_LIBRARY_PATH'' of
                        None \<Rightarrow> js_str (qtPath w v) @ ''/lib''
                      | Some X \<Rightarrow> if X = [] then js_str (qtPath w v) @ ''/lib''
                                  else X @ '':'' @ js_str (qtPath w v) @ ''/lib''))])
   \<and> (platform w \<noteq> ''linux'' \<longrightarrow> filter (exports ''LD_LIBRARY_PATH'') (run w) = [])
   \<and> (setEnv w \<noteq> ''true'' \<longrightarrow> filter (exports ''LD_LIBRARY_PATH'') (run w) = [])"
  by (auto simp: ld_run export_ld_library_path_def truthy_def js_str_def
        split: prod.splits sum.splits option.splits)

theorem C5_ld_library_path_witness:
  "run_prepare (example_linux\<lparr>env := (env example_linux)(''LD_LIBRARY_PATH'' := Some ''/opt/lib'')\<rparr>) []
     = (Inr (), [])
   \<and> determineVersion
        (example_linux\<lparr>env := (env example_linux)(''LD_LIBRARY_PATH'' := Some ''/opt/lib'')\<rparr>) []
     = (Inr ''6.2.0'',
        [Exec ''python -m aqt list-qt''
           [''linux'', ''desktop'', ''--spec'', dquote @ ''6.2'' @ dquote, ''--latest'']])
   \<and> setEnv (example_linux\<lparr>env := (env example_linux)(''LD_LIBRARY_PATH'' := Some ''/opt/lib'')\<rparr>)
     = ''true''
   \<and> platform (example_linux\<lparr>env := (env example_linux)(''LD_LIBRARY_PATH'' := Some ''/opt/lib'')\<rparr>)
     = ''linux''
   \<and> filter (exports ''LD_LIBRARY_PATH'')
        (run (example_linux\<lparr>env := (env example_linux)(''LD_LIBRARY_PATH'' := Some ''/opt/lib'')\<rparr>))
     = [ExportVariable ''LD_LIBRARY_PATH'' (Some ''/opt/lib:/w/Qt/6.2.0/gcc_64/lib'')]
   \<and> env example_linux ''LD_LIBRARY_PATH'' = None
   \<and> filter (exports ''LD_LIBRARY_PATH'') (run example_linux)
     = [ExportVariable ''LD_LIBRARY_PATH'' (Some ''/w/Qt/6.2.0/gcc_64/lib'')]
   \<and> platform (example_linux\<lparr>platform := ''win32''\<rparr>) \<noteq> ''linux''
   \<and> filter (exports ''LD_LIBRARY_PATH'') (run (example_linux\<lparr>platform := ''win32''\<rparr>)) = []
   \<and> setEnv (example_linux\<lparr>inputs := (inputs example_linux)(''set-env'' := ''false'')\<rparr>) \<noteq> ''true''
   \<and> filter (exports ''LD_LIBRARY_PATH'')
        (run (example_linux\<lparr>inputs := (inputs example_linux)(''set-env'' := ''false'')\<rparr>)) = []"
  using C5_ld_library_path
      [where w = "example_linux\<lparr>env := (env example_linux)(''LD_LIBRARY_PATH'' := Some ''/opt/lib'')\<rparr>"
         and tr = "[]" and v = "''6.2.0''"]
    C5_ld_library_path [where w = example_linux and tr = "[]" and v = "''6.2.0''"]
    C5_ld_library_path [where w = "example_linux\<lparr>platform := ''win32''\<rparr>"]
    C5_ld_library_path
      [where w = "example_linux\<lparr>inputs := (inputs example_linux)(''set-env'' := ''false'')\<rparr>"]
  by (simp add: example_linux_def run_defs)

section \<open>The default version specifier\<close>

text \<open>
  Claim C6 names \<^verbatim>\<open>latest-LTS\<close> as the specifier used when none is given.  Line 70 uses
  \<^verbatim>\<open>6.2\<close>, and that is what the lookup passes behind \<^verbatim>\<open>--spec\<close>.
\<close>

theorem C6_simpleSpec_counterexample:
  "inputs example_linux ''version'' = [] \<and> simpleSpec example_linux \<noteq> ''latest-LTS''
   \<and> snd (determineVersion example_linux []) =
       [Exec ''python -m aqt list-qt''
          [''linux'', ''desktop'', ''--spec'', dquote @ ''6.2'' @ dquote, ''--latest'']]"
  by (simp add: example_linux_def run_defs)

text \<open>
  Claim C6, as the code has it.  When no version specifier is given the specifier is the
  literal \<^verbatim>\<open>6.2\<close>, and the lookup passes it, between double quotes, as the argument after
  \<^verbatim>\<open>--spec\<close>; a specifier that is given is used as it is.
\<close>

theorem C6_simpleSpec:
  "(inputs w ''version'' = [] \<longrightarrow>
      simpleSpec w = ''6.2''
      \<and> snd (determineVersion w tr) =
          tr @ [Exec (pythonName w @ '' -m aqt list-qt'')
                  [host w, target w, ''--spec'', dquote @ ''6.2'' @ dquote, ''--latest'']])
   \<and> (inputs w ''version'' \<noteq> [] \<longrightarrow> simpleSpec w = inputs w ''version'')"
  by (simp add: determineVersion_eq simpleSpec_def)

theorem C6_simpleSpec_witness:
  "inputs example_linux ''version'' = [] \<and> simpleSpec example_linux = ''6.2''
   \<and> inputs (example_linux\<lparr>inputs := (inputs example_linux)(''version'' := ''5.15.2'')\<rparr>) ''version''
       \<noteq> []
   \<and> simpleSpec (example_linux\<lparr>inputs := (inputs example_linux)(''version'' := ''5.15.2'')\<rparr>)
       = ''5.15.2''"
  using C6_simpleSpec [of example_linux "[]"]
    C6_simpleSpec [of "example_linux\<lparr>inputs := (inputs example_linux)(''version'' := ''5.15.2'')\<rparr>" "[]"]
  by (simp add: example_linux_def)

section \<open>The variables named after the major version\<close>

text \<open>
  Claim C7.  For a resolved version below 6.0.0 the environment step exports \<^verbatim>\<open>Qt5_Dir\<close>,
  the name kept for compatibility, and \<^verbatim>\<open>Qt5_DIR\<close>, both with the installation path, and
  does not export \<^verbatim>\<open>Qt6_DIR\<close>; for a version of at least 6.0.0 it exports \<^verbatim>\<open>Qt6_DIR\<close>
  with the installation path and neither of the other two.  In both cases the step does
  not fail.  For the text of a version number the choice is by the major component alone.
\<close>

theorem C7_qt_dir_variables:
  "(version_triple v = Some t \<longrightarrow>
      fst (run_set_env w qt v tr) = Inr ()
      \<and> filter is_qt_dir_var (snd (run_set_env w qt v tr)) =
          filter is_qt_dir_var tr
          @ (if t < (6, 0, 0) then [ExportVariable ''Qt5_Dir'' qt, ExportVariable ''Qt5_DIR'' qt]
             else [ExportVariable ''Qt6_DIR'' qt]))
   \<and> filter is_qt_dir_var (snd (run_set_env w qt (version_string major minor patch) [])) =
        (if major < 6 then [ExportVariable ''Qt5_Dir'' qt, ExportVariable ''Qt5_DIR'' qt]
         else [ExportVariable ''Qt6_DIR'' qt])"
proof -
  have a: "fst (run_set_env w qt v tr) = Inr ()
      \<and> filter is_qt_dir_var (snd (run_set_env w qt v tr)) =
          filter is_qt_dir_var tr
          @ (if t < (6, 0, 0) then [ExportVariable ''Qt5_Dir'' qt, ExportVariable ''Qt5_DIR'' qt]
             else [ExportVariable ''Qt6_DIR'' qt])" if "version_triple v = Some t" for v t tr
    by (simp add: run_set_env_ok [OF that] is_qt_dir_var_def export_tools_def
        export_ld_library_path_def export_pkg_config_path_def export_paths_def)
  have b: "filter is_qt_dir_var (snd (run_set_env w qt (version_string major minor patch) [])) =
        (if major < 6 then [ExportVariable ''Qt5_Dir'' qt, ExportVariable ''Qt5_DIR'' qt]
         else [ExportVariable ''Qt6_DIR'' qt])"
    using a [OF version_triple_version_string, of major minor patch "[]"]
    by (simp add: triple_less_iff)
  show ?thesis using a b by blast
qed

theorem C7_qt_dir_variables_witness:
  "version_triple ''5.15.2'' = Some (5, 15, 2)
   \<and> filter is_qt_dir_var
        (snd (run_set_env example_linux (Some ''/w/Qt/5.15.2/gcc_64'') ''5.15.2'' []))
       = [ExportVariable ''Qt5_Dir'' (Some ''/w/Qt/5.15.2/gcc_64''),
          ExportVariable ''Qt5_DIR'' (Some ''/w/Qt/5.15.2/gcc_64'')]
   \<and> version_triple ''6.2.0'' = Some (6, 2, 0)
   \<and> filter is_qt_dir_var
        (snd (run_set_env example_linux (Some ''/w/Qt/6.2.0/gcc_64'') ''6.2.0'' []))
       = [ExportVariable ''Qt6_DIR'' (Some ''/w/Qt/6.2.0/gcc_64'')]"
proof -
  have a: "version_triple ''5.15.2'' = Some (5, 15, 2)"
    and b: "version_triple ''6.2.0'' = Some (6, 2, 0)"
    by (simp_all add: version_triple_def parse_nat_def is_digit_def digit_val_def)
  show ?thesis
    using a b
      C7_qt_dir_variables [where v = "''5.15.2''" and t = "(5, 15, 2)" and w = example_linux
         and qt = "Some ''/w/Qt/5.15.2/gcc_64''" and tr = "[]" and major = 5 and minor = 15 and patch = 2]
      C7_qt_dir_variables [where v = "''6.2.0''" and t = "(6, 2, 0)" and w = example_linux
         and qt = "Some ''/w/Qt/6.2.0/gcc_64''" and tr = "[]" and major = 6 and minor = 2 and patch = 0]
    by (simp add: less_prod_def)
qed

section \<open>The directory name of a version\<close>

text \<open>
  Claim C8.  The directory name derived from a resolved version is the version itself,
  except that version 5.9.0 has the directory name 5.9; so 5.9.1 and 6.2.0 keep their
  names.
\<close>

theorem C8_version_dir:
  "version_dir ''5.9.0'' = ''5.9'' \<and> (\<forall>v. v \<noteq> ''5.9.0'' \<longrightarrow> version_dir v = v)
   \<and> version_dir ''5.9.1'' = ''5.9.1'' \<and> version_dir ''6.2.0'' = ''6.2.0''"
  by (simp add: version_dir_def)

theorem C8_version_dir_witness:
  "''5.15.2'' \<noteq> ''5.9.0'' \<and> version_dir ''5.15.2'' = ''5.15.2''"
  using C8_version_dir by simp

section \<open>Parsing a tool token\<close>

text \<open>
  Claim C9.  A token of the tools input is cut at its commas: the tool name is the first
  piece, the variant is the last piece when there are at least two pieces and the empty
  string otherwise.  In terms of the token itself: a token without a comma is its own tool
  name with an empty variant; in a token with commas the tool name is the text before the
  first comma and the variant the text after the last one.
\<close>

theorem C9_tool_parse:
  "toolName element = Some (hd (js_split CHR '','' element))
   \<and> variantName element =
       Some (if length (js_split CHR '','' element) > 1 then last (js_split CHR '','' element) else [])
   \<and> (CHR '','' \<notin> set element \<longrightarrow> toolName element = Some element \<and> variantName element = Some [])
   \<and> (CHR '','' \<notin> set a \<and> CHR '','' \<notin> set b \<longrightarrow>
        toolName (a @ CHR '','' # b) = Some a \<and> variantName (a @ CHR '','' # b) = Some b)
   \<and> (CHR '','' \<notin> set a \<and> CHR '','' \<notin> set b \<longrightarrow>
        toolName (a @ CHR '','' # m @ CHR '','' # b) = Some a
        \<and> variantName (a @ CHR '','' # m @ CHR '','' # b) = Some b)
   \<and> toolName ''wintools,gcc_64'' = Some ''wintools''
   \<and> variantName ''wintools,gcc_64'' = Some ''gcc_64''
   \<and> toolName ''wintools'' = Some ''wintools''
   \<and> variantName ''wintools'' = Some []"
proof -
  let ?es = "js_split CHR '','' element"
  have ne: "?es \<noteq> []" by (rule js_split_not_Nil)
  have t: "toolName element = Some (hd ?es)"
    using ne by (simp add: toolName_def js_index_def hd_conv_nth)
  have v: "variantName element = Some (if length ?es > 1 then last ?es else [])"
    using ne by (simp add: variantName_def js_index_def Let_def last_conv_nth)
  have one: "CHR '','' \<notin> set element \<Longrightarrow> toolName element = Some element \<and> variantName element = Some []"
    by (simp add: toolName_def variantName_def js_index_def js_split_no_sep)
  have two: "toolName (a @ CHR '','' # b) = Some a \<and> variantName (a @ CHR '','' # b) = Some b"
    if "CHR '','' \<notin> set a" "CHR '','' \<notin> set b"
    using that js_split_last [of "CHR '',''" b a] js_split_length_sep [of "CHR '',''" a b]
    by (simp add: toolName_def variantName_def js_index_def js_split_first Let_def last_conv_nth js_split_not_Nil)
  have three: "toolName (a @ CHR '','' # m @ CHR '','' # b) = Some a
        \<and> variantName (a @ CHR '','' # m @ CHR '','' # b) = Some b"
    if "CHR '','' \<notin> set a" "CHR '','' \<notin> set b"
  proof -
    have "last (js_split CHR '','' ((a @ CHR '','' # m) @ CHR '','' # b)) = b"
      using that by (rule_tac js_split_last)
    moreover have "1 < length (js_split CHR '','' ((a @ CHR '','' # m) @ CHR '','' # b))"
      by (rule js_split_length_sep)
    ultimately show ?thesis using that
      by (simp add: toolName_def variantName_def js_index_def js_split_first Let_def last_conv_nth js_split_not_Nil)
  qed
  have ex: "toolName ''wintools,gcc_64'' = Some ''wintools''
   \<and> variantName ''wintools,gcc_64'' = Some ''gcc_64''
   \<and> toolName ''wintools'' = Some ''wintools''
   \<and> variantName ''wintools'' = Some []"
    by (simp add: toolName_def variantName_def js_index_def)
  show ?thesis using t v one two three ex by blast
qed

theorem C9_tool_parse_witness:
  "CHR '','' \<notin> set ''tools_ifw'' \<and> CHR '','' \<notin> set ''qt.tools.ifw.41''
   \<and> toolName ''tools_ifw,qt.tools.ifw.41'' = Some ''tools_ifw''
   \<and> variantName ''tools_ifw,qt.tools.ifw.41'' = Some ''qt.tools.ifw.41''
   \<and> CHR '','' \<notin> set ''tools_cmake''
   \<and> toolName ''tools_cmake'' = Some ''tools_cmake'' \<and> variantName ''tools_cmake'' = Some []"
  using C9_tool_parse [of "''tools_cmake''" "''tools_ifw''" "''qt.tools.ifw.41''" "[]"]
  by simp

section \<open>The guard of the environment step\<close>

text \<open>
  Claim C10.  When the \<^verbatim>\<open>set-env\<close> input is anything but \<^verbatim>\<open>true\<close>, the run exports no
  variable and prepends no path; a run whose second version lookup succeeds then ends
  there, without failure.  The commands a run executes do not depend on the \<^verbatim>\<open>set-env\<close>
  input at all: changing it to any value leaves every installation step and both version
  lookups as they were.
\<close>

theorem C10_set_env_guard:
  "(setEnv w \<noteq> ''true'' \<longrightarrow> mutations (run w) = [])
   \<and> (setEnv w \<noteq> ''true'' \<and> run_prepare w [] = (Inr (), tr) \<and> determineVersion w tr = (Inr v, tr')
        \<longrightarrow> run w = tr')
   \<and> filter is_exec (run (w\<lparr>inputs := (inputs w)(''set-env'' := s)\<rparr>)) = filter is_exec (run w)"
proof -
  have "run_until_projection (w\<lparr>inputs := (inputs w)(''set-env'' := s)\<rparr>) = run_until_projection w"
    by (simp add: run_until_projection_def set_env_irrelevant_prepare
          set_env_irrelevant_determineVersion split: prod.splits sum.splits)
  then have "filter is_exec (run (w\<lparr>inputs := (inputs w)(''set-env'' := s)\<rparr>)) = filter is_exec (run w)"
    by (simp add: exec_run)
  moreover have "run w = tr'"
    if "setEnv w \<noteq> ''true''" "run_prepare w [] = (Inr (), tr)" "determineVersion w tr = (Inr v, tr')"
    using that by (simp add: run_shape)
  ultimately show ?thesis using mutations_run_no_set_env by blast
qed

theorem C10_set_env_guard_witness:
  "setEnv (example_linux\<lparr>inputs := (inputs example_linux)(''set-env'' := ''false'')\<rparr>) \<noteq> ''true''
   \<and> run_prepare (example_linux\<lparr>inputs := (inputs example_linux)(''set-env'' := ''false'')\<rparr>) []
       = (Inr (), [])
   \<and> determineVersion (example_linux\<lparr>inputs := (inputs example_linux)(''set-env'' := ''false'')\<rparr>) []
       = (Inr ''6.2.0'',
          [Exec ''python -m aqt list-qt''
             [''linux'', ''desktop'', ''--spec'', dquote @ ''6.2'' @ dquote, ''--latest'']])
   \<and> mutations (run (example_linux\<lparr>inputs := (inputs example_linux)(''set-env'' := ''false'')\<rparr>)) = []
   \<and> run (example_linux\<lparr>inputs := (inputs example_linux)(''set-env'' := ''false'')\<rparr>)
       = [Exec ''python -m aqt list-qt''
            [''linux'', ''desktop'', ''--spec'', dquote @ ''6.2'' @ dquote, ''--latest'']]
   \<and> filter is_exec (run example_linux)
       = [Exec ''python -m aqt list-qt''
            [''linux'', ''desktop'', ''--spec'', dquote @ ''6.2'' @ dquote, ''--latest'']]"
  using C10_set_env_guard
      [where w = "example_linux\<lparr>inputs := (inputs example_linux)(''set-env'' := ''false'')\<rparr>"
         and tr = "[]" and v = "''6.2.0''" and s = "''true''"]
  by (simp add: example_linux_def run_defs mutations_def)

end
